theory Spec2Isabelle
  imports Main "HOL-Library.AList" "HOL-Library.Sublist"
begin

section \<open>Python values used by the notebook\<close>

text \<open>
  The exceptions the notebook's statements can end with. \<open>ValueError\<close>, \<open>KeyError\<close> and
  \<open>IndexError\<close> are what the notebook's own expressions \<open>int(s)\<close>, \<open>d[k]\<close> and
  \<open>a[0]\<close> raise; \<open>ExternalError\<close> stands for whatever else a call into deepr,
  tensorflow or faiss raises, with the library's message.
\<close>

datatype py_error = ValueError | KeyError | IndexError | ExternalError string

text \<open>
  \<open>s.split("\n")\<close>: the pieces between the newline characters. The empty string has the
  one piece \<open>""\<close>, and a string that ends with a newline has the last piece \<open>""\<close>.
\<close>

fun split_nl :: "string \<Rightarrow> string list" where
  "split_nl [] = [[]]"
| "split_nl (c # cs) =
     (if c = CHR 0x0A then [] # split_nl cs
      else (case split_nl cs of [] \<Rightarrow> [[c]] | t # ts \<Rightarrow> (c # t) # ts))"







text \<open>
  A \<open>dict\<close> is the list of its items in insertion order, with no key twice.
  \<open>d[k] = v\<close> is \<open>AList.update k v d\<close>: it replaces the value where the key stands, or
  appends the item. \<open>d[k]\<close> raises \<open>KeyError\<close> for a key that is not there.
\<close>

type_synonym ('k, 'v) dict = "('k \<times> 'v) list"

definition getitem :: "('k, 'v) dict \<Rightarrow> 'k \<Rightarrow> py_error + 'v" where
  "getitem d k = (case map_of d k of None \<Rightarrow> Inl KeyError | Some v \<Rightarrow> Inr v)"

text \<open>\<open>a[0]\<close> on a sequence: \<open>IndexError\<close> when it is empty.\<close>

definition item0 :: "'a list \<Rightarrow> py_error + 'a" where
  "item0 xs = (case xs of [] \<Rightarrow> Inl IndexError | x # _ \<Rightarrow> Inr x)"

section \<open>The visualisation cell\<close>

subsection \<open>\<open>mapp\<close> and \<open>inversed_map\<close>\<close>





subsection \<open>\<open>knn_query\<close>\<close>

text \<open>
  The faiss index is an object of an external library; the notebook only calls its
  \<open>search\<close> method, so the index is modelled by that method. \<open>search\<close> takes the batch
  of queries and \<open>ksearch\<close> and returns the arrays \<open>D\<close> and \<open>I\<close> (one row per query),
  or raises. Distances are passed through untouched, so their type is a parameter.
\<close>

record ('q, 'd) faiss_index =
  search :: "'q list \<Rightarrow> int \<Rightarrow> py_error + ('d list list \<times> int list list)"

text \<open>\<^verbatim>\<open>[inversed_map[i] for i in product_indices]\<close>\<close>

fun lookup_all :: "(int, int) dict \<Rightarrow> int list \<Rightarrow> py_error + int list" where
  "lookup_all d [] = Inr []"
| "lookup_all d (i # rest) =
     (case getitem d i of
        Inl e \<Rightarrow> Inl e
      | Inr v \<Rightarrow> (case lookup_all d rest of Inl e \<Rightarrow> Inl e | Inr vs \<Rightarrow> Inr (v # vs)))"

text \<open>
  \<^verbatim>\<open>
def knn_query(index, query, ksearch):
    D, I = index.search(np.expand_dims(query,0), ksearch)
    distances = D[0]
    product_indices = I[0]
    product_ids = [inversed_map[i] for i in product_indices]
    return list(zip(product_ids, distances))
  \<close>
  The global \<open>inversed_map\<close> is the first argument of the model.
\<close>

definition knn_query ::
  "(int, int) dict \<Rightarrow> ('q, 'd) faiss_index \<Rightarrow> 'q \<Rightarrow> int \<Rightarrow> py_error + (int \<times> 'd) list" where
  "knn_query imap index query ksearch =
     (case search index [query] ksearch of
        Inl e \<Rightarrow> Inl e
      | Inr (D, I) \<Rightarrow>
          (case item0 D of
             Inl e \<Rightarrow> Inl e
           | Inr distances \<Rightarrow>
               (case item0 I of
                  Inl e \<Rightarrow> Inl e
                | Inr product_indices \<Rightarrow>
                    (case lookup_all imap product_indices of
                       Inl e \<Rightarrow> Inl e
                     | Inr product_ids \<Rightarrow> Inr (zip product_ids distances)))))"

subsection \<open>\<open>display_results_df\<close> and \<open>display_movie\<close>\<close>

text \<open>The rows of \<open>movies.csv\<close> as loaded into the table \<open>movies\<close>.\<close>

record movie =
  movieId :: int
  title :: string
  genres :: string

text \<open>
  \<^verbatim>\<open>movies[movies.movieId == movie_id]["genres"].to_numpy()[0]\<close>: the column of the rows
  with that id, then its first entry.
\<close>

definition genres_of :: "movie list \<Rightarrow> int \<Rightarrow> py_error + string" where
  "genres_of movies movie_id = item0 (map genres (filter (\<lambda>r. movieId r = movie_id) movies))"

definition title_of :: "movie list \<Rightarrow> int \<Rightarrow> py_error + string" where
  "title_of movies movie_id = item0 (map title (filter (\<lambda>r. movieId r = movie_id) movies))"

datatype 'd cell = Text string | Number 'd

record 'd data_frame =
  columns :: "string list"
  rows :: "'d cell list list"

text \<open>The list comprehension of \<open>display_results_df\<close>, one row per pair, in order.\<close>

fun results_data :: "movie list \<Rightarrow> (int \<times> 'd) list \<Rightarrow> py_error + 'd cell list list" where
  "results_data movies [] = Inr []"
| "results_data movies ((movie_id, distance) # rest) =
     (case genres_of movies movie_id of
        Inl e \<Rightarrow> Inl e
      | Inr g \<Rightarrow>
          (case title_of movies movie_id of
             Inl e \<Rightarrow> Inl e
           | Inr t \<Rightarrow>
               (case results_data movies rest of
                  Inl e \<Rightarrow> Inl e
                | Inr data \<Rightarrow> Inr ([Text g, Text t, Number distance] # data))))"

text \<open>
  \<open>display(df)\<close> appends the frame to what the cell has shown so far; the functions
  take that output and return it extended, or the exception (then nothing was shown).
\<close>

definition display_results_df ::
  "movie list \<Rightarrow> 'd data_frame list \<Rightarrow> (int \<times> 'd) list \<Rightarrow> py_error + 'd data_frame list" where
  "display_results_df movies out results =
     (case results_data movies results of
        Inl e \<Rightarrow> Inl e
      | Inr data \<Rightarrow>
          Inr (out @ [\<lparr>columns = [''Genre'', ''Title'', ''Distance''], rows = data\<rparr>]))"

definition display_movie ::
  "movie list \<Rightarrow> 'd data_frame list \<Rightarrow> int \<Rightarrow> py_error + 'd data_frame list" where
  "display_movie movies out movie_id =
     (case genres_of movies movie_id of
        Inl e \<Rightarrow> Inl e
      | Inr g \<Rightarrow>
          (case title_of movies movie_id of
             Inl e \<Rightarrow> Inl e
           | Inr t \<Rightarrow> Inr (out @ [\<lparr>columns = [''Genre'', ''Title''], rows = [[Text g, Text t]]\<rparr>])))"


text \<open>
  A stand-in for a faiss index that holds one vector, for running the model: every
  query gets \<open>ksearch\<close> distances and \<open>ksearch\<close> labels, the label \<open>0\<close> of the one
  vector first and then \<open>-1\<close>, the label faiss gives where it has no neighbour left.
\<close>

definition single_vector_index :: "(int list, int) faiss_index" where
  "single_vector_index =
     \<lparr>search = (\<lambda>queries ksearch.
        Inr (map (\<lambda>q. replicate (nat ksearch) 0) queries,
             map (\<lambda>q. take (nat ksearch) (0 # replicate (nat ksearch) (- 1))) queries))\<rparr>"

section \<open>The pipeline cells\<close>

subsection \<open>Paths\<close>

text \<open>\<open>os.getcwd()\<close> is the argument \<open>cwd\<close>.\<close>

definition dataset_path :: "string \<Rightarrow> string" where
  "dataset_path cwd = cwd @ ''/ml-20m''"

definition path_ratings :: "string \<Rightarrow> string" where
  "path_ratings cwd = dataset_path cwd @ ''/ratings.csv''"

definition path_root :: string where
  "path_root = ''average''"

definition path_model :: string where
  "path_model = path_root @ ''/model''"

definition path_data :: string where
  "path_data = path_root @ ''/data''"

definition path_variables :: string where
  "path_variables = path_root @ ''/variables''"

definition path_predictions :: string where
  "path_predictions = path_root @ ''/predictions.parquet.snappy''"

definition path_saved_model :: string where
  "path_saved_model = path_root @ ''/saved_model''"

definition path_mapping :: string where
  "path_mapping = path_data @ ''/mapping.txt''"

definition path_train :: string where
  "path_train = path_data @ ''/train.tfrecord.gz''"

definition path_eval :: string where
  "path_eval = path_data @ ''/eval.tfrecord.gz''"

definition path_test :: string where
  "path_test = path_data @ ''/test.tfrecord.gz''"

definition max_steps :: int where
  "max_steps = 100000"

subsection \<open>Parameter objects\<close>

text \<open>
  A decimal literal such as \<open>0.2\<close> is kept as written, mantissa and decimal exponent:
  the notebook stores these numbers and never computes with them.
\<close>

datatype py_float = Float int int

text \<open>
  An argument value of the framework objects that no cell looks into again: a literal,
  a name such as \<open>tf.int64\<close>, or a call \<open>Class(args, key=value, ...)\<close> kept as the class
  name with its positional and keyword arguments.
\<close>

datatype pyval =
    PInt int
  | PFloat py_float
  | PStr string
  | PBool bool
  | PNone
  | PName string
  | PTuple "pyval list"
  | PList "pyval list"
  | PDict "(string \<times> pyval) list"
  | PCall string "pyval list" "(string \<times> pyval) list"

text \<open>
  Modelled from the spec: the classes \<open>BuildRecords\<close>, \<open>Trainer\<close>, \<open>Predict\<close>,
  \<open>Evaluate\<close> and the classes of their arguments are declared in deepr, not in the
  notebook. The spec has each job as "a thin parameter object handed to an external
  framework's execution engine", so an object is the record of the arguments the
  notebook gives it; an argument left out is \<open>None\<close> (the class's default).
\<close>

record build_records =
  br_path_ratings :: string
  br_path_mapping :: string
  br_path_train :: string
  br_path_eval :: string
  br_path_test :: string
  br_min_rating :: int
  br_min_length :: int
  br_num_negatives :: int
  br_target_ratio :: py_float
  br_size_test :: int
  br_size_eval :: int
  br_shuffle_timelines :: bool
  br_seed :: int

record average_model =
  am_vocab_size :: int
  am_dim :: int
  am_keep_prob :: py_float

record loss =
  loss_name :: string
  loss_vocab_size :: int

record tfrecord_reader =
  reader_path :: string
  reader_shuffle :: "bool option"

datatype exporter =
    BestCheckpoint string string
  | SaveVariables string "string list"
  | SavedModel string "pyval list"

record trainer =
  tr_path_model :: string
  tr_pred_fn :: average_model
  tr_loss_fn :: loss
  tr_optimizer_fn :: pyval
  tr_train_input_fn :: tfrecord_reader
  tr_eval_input_fn :: tfrecord_reader
  tr_prepro_fn :: pyval
  tr_train_spec :: pyval
  tr_eval_spec :: pyval
  tr_final_spec :: pyval
  tr_exporters :: "exporter list"
  tr_train_hooks :: "pyval list"
  tr_eval_hooks :: "pyval list"
  tr_final_hooks :: "pyval list"
  tr_train_metrics :: "pyval list"
  tr_eval_metrics :: "pyval list"
  tr_final_metrics :: "pyval list"
  tr_run_config :: pyval
  tr_config_proto :: pyval

record predict_job =
  pr_path_saved_model :: string
  pr_path_predictions :: string
  pr_input_fn :: tfrecord_reader
  pr_prepro_fn :: pyval

record evaluate_job =
  ev_path_predictions :: string
  ev_path_embeddings :: string
  ev_path_biases :: string
  ev_k :: int

datatype job =
    BuildRecords build_records
  | Trainer trainer
  | Predict predict_job
  | Evaluate evaluate_job

subsection \<open>The framework's calls\<close>

text \<open>
  What the notebook calls in deepr and the operating system, over a world \<open>'w\<close> (the
  file system and whatever else the libraries keep): \<open>os.getcwd()\<close>,
  \<open>dpr.io.Path(p).mkdir(exist_ok=True)\<close>, \<open>dpr.vocab.size(p)\<close>, which reads and
  returns a number, and \<open>job.run()\<close> of the four job classes. Each may raise.
\<close>

record 'w deepr =
  getcwd :: "'w \<Rightarrow> string"
  mkdir :: "string \<Rightarrow> 'w \<Rightarrow> py_error + 'w"
  vocab_size :: "string \<Rightarrow> 'w \<Rightarrow> py_error + int"
  run_job :: "job \<Rightarrow> 'w \<Rightarrow> py_error + 'w"





subsection \<open>The cells\<close>

text \<open>\<^verbatim>\<open>build = movielens.jobs.BuildRecords(path_ratings=path_ratings, ...)\<close>\<close>

definition build :: "string \<Rightarrow> build_records" where
  "build cwd =
     \<lparr>br_path_ratings = path_ratings cwd,
      br_path_mapping = path_mapping,
      br_path_train = path_train,
      br_path_eval = path_eval,
      br_path_test = path_test,
      br_min_rating = 4,
      br_min_length = 5,
      br_num_negatives = 8,
      br_target_ratio = Float 2 (- 1),
      br_size_test = 10000,
      br_size_eval = 10000,
      br_shuffle_timelines = True,
      br_seed = 2020\<rparr>"

text \<open>
  The arguments of \<open>dpr.jobs.Trainer(...)\<close>, given the numbers that the two calls
  \<open>dpr.vocab.size(path_mapping)\<close> returned (the first inside \<open>pred_fn\<close>, the second
  inside \<open>loss_fn\<close>).
\<close>

definition train_with :: "int \<Rightarrow> int \<Rightarrow> trainer" where
  "train_with n1 n2 =
     \<lparr>tr_path_model = path_model,
      tr_pred_fn = \<lparr>am_vocab_size = n1, am_dim = 100, am_keep_prob = Float 5 (- 1)\<rparr>,
      tr_loss_fn = \<lparr>loss_name = ''bpr'', loss_vocab_size = n2\<rparr>,
      tr_optimizer_fn =
        PCall ''dpr.optimizers.TensorflowOptimizer'' [PStr ''LazyAdam'', PFloat (Float 1 (- 3))] [],
      tr_train_input_fn = \<lparr>reader_path = path_train, reader_shuffle = None\<rparr>,
      tr_eval_input_fn = \<lparr>reader_path = path_eval, reader_shuffle = Some False\<rparr>,
      tr_prepro_fn =
        PCall ''movielens.prepros.RecordPrepro'' []
          [(''min_input_size'', PInt 3),
           (''min_target_size'', PInt 3),
           (''max_input_size'', PInt 50),
           (''max_target_size'', PInt 50),
           (''buffer_size'', PInt 1024),
           (''batch_size'', PInt 128),
           (''repeat_size'', PNone),
           (''prefetch_size'', PInt 1),
           (''num_parallel_calls'', PInt 8)],
      tr_train_spec = PCall ''dpr.jobs.TrainSpec'' [] [(''max_steps'', PInt max_steps)],
      tr_eval_spec =
        PCall ''dpr.jobs.EvalSpec'' []
          [(''steps'', PNone), (''start_delay_secs'', PInt 30), (''throttle_secs'', PInt 30)],
      tr_final_spec = PCall ''dpr.jobs.FinalSpec'' [] [(''steps'', PNone)],
      tr_exporters =
        [BestCheckpoint ''triplet_precision'' ''increase'',
         SaveVariables path_variables [''biases'', ''embeddings''],
         SavedModel path_saved_model
           [PCall ''dpr.Field'' []
              [(''name'', PStr ''inputPositives''), (''shape'', PTuple [PNone]),
               (''dtype'', PName ''tf.int64'')],
            PCall ''dpr.Field'' []
              [(''name'', PStr ''inputMask''), (''shape'', PTuple [PNone]),
               (''dtype'', PName ''tf.bool'')]]],
      tr_train_hooks =
        [PCall ''dpr.hooks.LoggingTensorHookFactory'' []
           [(''name'', PStr ''training''),
            (''functions'',
             PDict
               [(''memory_gb'', PCall ''dpr.hooks.ResidentMemory'' [] [(''unit'', PStr ''gb'')]),
                (''max_memory_gb'',
                 PCall ''dpr.hooks.MaxResidentMemory'' [] [(''unit'', PStr ''gb'')])]),
            (''every_n_iter'', PInt 300),
            (''use_graphite'', PBool False),
            (''use_mlflow'', PBool False)],
         PCall ''dpr.hooks.SummarySaverHookFactory'' [] [(''save_steps'', PInt 300)],
         PCall ''dpr.hooks.NumParamsHook'' [] [(''use_mlflow'', PBool False)],
         PCall ''dpr.hooks.LogVariablesInitHook'' [] [(''use_mlflow'', PBool False)],
         PCall ''dpr.hooks.StepsPerSecHook'' []
           [(''name'', PStr ''training''),
            (''batch_size'', PInt 128),
            (''every_n_steps'', PInt 300),
            (''skip_after_step'', PInt max_steps),
            (''use_mlflow'', PBool False),
            (''use_graphite'', PBool False)],
         PCall ''dpr.hooks.EarlyStoppingHookFactory'' []
           [(''metric'', PStr ''triplet_precision''),
            (''mode'', PStr ''increase''),
            (''max_steps_without_improvement'', PInt 1000),
            (''min_steps'', PInt 5000),
            (''run_every_steps'', PInt 300),
            (''final_step'', PInt max_steps)]],
      tr_eval_hooks =
        [PCall ''dpr.hooks.LoggingTensorHookFactory'' []
           [(''name'', PStr ''validation''), (''at_end'', PBool True)]],
      tr_final_hooks =
        [PCall ''dpr.hooks.LoggingTensorHookFactory'' []
           [(''name'', PStr ''final_validation''), (''at_end'', PBool True)]],
      tr_train_metrics =
        [PCall ''dpr.metrics.StepCounter'' [] [(''name'', PStr ''num_steps'')],
         PCall ''dpr.metrics.DecayMean'' []
           [(''tensors'', PList [PStr ''loss'']), (''decay'', PFloat (Float 98 (- 2)))]],
      tr_eval_metrics =
        [PCall ''dpr.metrics.Mean'' []
           [(''tensors'', PList [PStr ''loss'', PStr ''triplet_precision''])]],
      tr_final_metrics =
        [PCall ''dpr.metrics.Mean'' []
           [(''tensors'', PList [PStr ''loss'', PStr ''triplet_precision''])]],
      tr_run_config =
        PCall ''dpr.jobs.RunConfig'' []
          [(''save_checkpoints_steps'', PInt 300),
           (''save_summary_steps'', PInt 300),
           (''keep_checkpoint_max'', PNone),
           (''log_step_count_steps'', PInt 300)],
      tr_config_proto =
        PCall ''dpr.jobs.ConfigProto'' []
          [(''inter_op_parallelism_threads'', PInt 8),
           (''intra_op_parallelism_threads'', PInt 8),
           (''gpu_device_count'', PInt 0),
           (''cpu_device_count'', PInt 48)]\<rparr>"

text \<open>
  The cell \<^verbatim>\<open>train = dpr.jobs.Trainer(...)\<close>. Python evaluates the keyword arguments in
  the order written, so the cell calls \<open>dpr.vocab.size(path_mapping)\<close> for \<open>pred_fn\<close>,
  then again for \<open>loss_fn\<close>, and an exception of either call leaves \<open>train\<close> undefined.
\<close>

definition train :: "'w deepr \<Rightarrow> 'w \<Rightarrow> py_error + trainer" where
  "train env w =
     (case vocab_size env path_mapping w of
        Inl e \<Rightarrow> Inl e
      | Inr n1 \<Rightarrow>
          (case vocab_size env path_mapping w of
             Inl e \<Rightarrow> Inl e
           | Inr n2 \<Rightarrow> Inr (train_with n1 n2)))"

text \<open>\<^verbatim>\<open>predict = movielens.jobs.Predict(...)\<close>\<close>

definition predict :: predict_job where
  "predict =
     \<lparr>pr_path_saved_model = path_saved_model,
      pr_path_predictions = path_predictions,
      pr_input_fn = \<lparr>reader_path = path_test, reader_shuffle = Some False\<rparr>,
      pr_prepro_fn = PCall ''movielens.prepros.RecordPrepro'' [] []\<rparr>"

text \<open>\<^verbatim>\<open>evaluate = [movielens.jobs.Evaluate(..., k=k) for k in [10, 20, 50]]\<close>\<close>

definition evaluate :: "evaluate_job list" where
  "evaluate =
     map (\<lambda>k. \<lparr>ev_path_predictions = path_predictions,
                ev_path_embeddings = path_variables @ ''/embeddings'',
                ev_path_biases = path_variables @ ''/biases'',
                ev_k = k\<rparr>)
       [10, 20, 50]"






text \<open>
  A stand-in for the framework, for running the model: the world is the list of the
  files written, \<open>dpr.vocab.size\<close> counts the lines of a file and raises for a file that
  is not there, \<open>BuildRecords.run()\<close> writes a mapping file of three movies, and the
  other jobs succeed and write nothing the notebook reads.
\<close>

definition files_deepr :: "(string \<times> string) list deepr" where
  "files_deepr =
     \<lparr>getcwd = (\<lambda>w. ''/home''),
      mkdir = (\<lambda>p w. Inr w),
      vocab_size = (\<lambda>p w.
        case map_of w p of
          None \<Rightarrow> Inl (ExternalError ''No such file'')
        | Some c \<Rightarrow> Inr (int (length (split_nl c)))),
      run_job = (\<lambda>j w.
        case j of
          BuildRecords b \<Rightarrow> Inr ((br_path_mapping b, ''7\<newline>5\<newline>9'') # w)
        | _ \<Rightarrow> Inr w)\<rparr>"


text \<open>A small \<open>movies\<close> table, for running the model.\<close>

definition two_movies :: "movie list" where
  "two_movies =
     [\<lparr>movieId = 260, title = ''Star Wars'', genres = ''Action|Sci-Fi''\<rparr>,
      \<lparr>movieId = 1, title = ''Toy Story'', genres = ''Children''\<rparr>]"

section \<open>The visualisation cell: proofs\<close>




























lemma lookup_all_ok:
  "map (getitem d) idxs = map Inr vs \<Longrightarrow> lookup_all d idxs = Inr vs"
  by (induction idxs arbitrary: vs) (auto split: sum.splits)

lemma lookup_all_missing:
  "i \<in> set idxs \<Longrightarrow> i \<notin> fst ` set d \<Longrightarrow> lookup_all d idxs = Inl KeyError"
proof (induction idxs)
  case Nil
  then show ?case by simp
next
  case (Cons a rest)
  have none: "map_of d i = None"
    using Cons.prems(2) by (simp add: map_of_eq_None_iff)
  show ?case
  proof (cases "map_of d a")
    case None
    then show ?thesis by (simp add: getitem_def)
  next
    case (Some v)
    then have "a \<noteq> i" using none by auto
    then have "lookup_all d rest = Inl KeyError"
      using Cons by simp
    then show ?thesis using Some by (simp add: getitem_def)
  qed
qed



text \<open>
  C1, as amended: when \<open>index.search\<close> on the batch of the one query returns \<open>D\<close> and
  \<open>I\<close> with first rows \<open>distances\<close> and \<open>product_indices\<close>, and \<open>inversed_map\<close> maps
  the returned indices to \<open>product_ids\<close>, then \<open>knn_query\<close> returns exactly
  \<open>list(zip(product_ids, distances))\<close>, which has \<open>ksearch\<close> pairs when both rows have
  \<open>ksearch\<close> entries; when a returned index is no key of \<open>inversed_map\<close>, \<open>knn_query\<close>
  raises \<open>KeyError\<close> and returns no list.
\<close>

theorem knn_query_delegates:
  assumes "search index [query] ksearch = Inr (distances # D, product_indices # I)"
  shows "(map (getitem imap) product_indices = map Inr product_ids \<longrightarrow>
            knn_query imap index query ksearch = Inr (zip product_ids distances) \<and>
            (length product_indices = nat ksearch \<and> length distances = nat ksearch \<longrightarrow>
               length (zip product_ids distances) = nat ksearch)) \<and>
         ((\<exists>i \<in> set product_indices. i \<notin> fst ` set imap) \<longrightarrow>
            knn_query imap index query ksearch = Inl KeyError)"
proof (intro conjI impI)
  assume ids: "map (getitem imap) product_indices = map Inr product_ids"
  then show "knn_query imap index query ksearch = Inr (zip product_ids distances)"
    using assms by (simp add: knn_query_def item0_def lookup_all_ok)
  assume "length product_indices = nat ksearch \<and> length distances = nat ksearch"
  moreover have "length product_ids = length product_indices"
    using ids by (metis length_map)
  ultimately show "length (zip product_ids distances) = nat ksearch"
    by simp
next
  assume "\<exists>i \<in> set product_indices. i \<notin> fst ` set imap"
  then have "lookup_all imap product_indices = Inl KeyError"
    using lookup_all_missing by blast
  then show "knn_query imap index query ksearch = Inl KeyError"
    using assms by (simp add: knn_query_def item0_def)
qed

text \<open>
  C1 as stated fails: asked for two neighbours, an index that holds one vector pads its
  answer with the label \<open>-1\<close>, which \<open>inversed_map\<close> does not know.
\<close>

theorem knn_query_pads_counterexample:
  "knn_query [(0, 7)] single_vector_index [1] 2 = Inl KeyError"
  by (simp add: knn_query_def single_vector_index_def item0_def getitem_def numeral_2_eq_2)

text \<open>The same index asked for one neighbour, and for two.\<close>

theorem knn_query_delegates_witness:
  "search single_vector_index [[1]] 1 = Inr ([0] # [], [0] # []) \<and>
   knn_query [(0, 7)] single_vector_index [1] 1 = Inr [(7, 0)] \<and>
   search single_vector_index [[1]] 2 = Inr ([0, 0] # [], [0, - 1] # []) \<and>
   knn_query [(0, 7)] single_vector_index [1] 2 = Inl KeyError"
proof -
  have s1: "search single_vector_index [[1]] 1 = Inr ([0] # [], [0] # [])"
    by (simp add: single_vector_index_def)
  have s2: "search single_vector_index [[1]] 2 = Inr ([0, 0] # [], [0, - 1] # [])"
    by (simp add: single_vector_index_def numeral_2_eq_2)
  have g: "map (getitem [(0, 7)]) [0] = map Inr [7::int]"
    by (simp add: getitem_def)
  have r1: "knn_query [(0, 7)] single_vector_index [1] 1 = Inr [(7, 0)]"
    using knn_query_delegates [OF s1, of "[(0, 7)]" "[7]"] g by auto
  have r2: "knn_query [(0, 7)] single_vector_index [1] 2 = Inl KeyError"
    using knn_query_delegates [OF s2, of "[(0, 7)]" "[]"] by simp
  show ?thesis
    using s1 s2 r1 r2 by simp
qed

lemma item0_filter:
  "item0 (map f (filter P xs)) = (case find P xs of None \<Rightarrow> Inl IndexError | Some r \<Rightarrow> Inr (f r))"
  by (induction xs) (auto simp: item0_def)

lemma find_absent: "movie_id \<notin> movieId ` set movies \<Longrightarrow> find (\<lambda>r. movieId r = movie_id) movies = None"
  by (auto simp: find_None_iff)

lemma find_present:
  "movie_id \<in> movieId ` set movies \<Longrightarrow> \<exists>r. find (\<lambda>r. movieId r = movie_id) movies = Some r"
  by (cases "find (\<lambda>r. movieId r = movie_id) movies") (auto simp: find_None_iff)

lemma results_data_error: "results_data movies results = Inl e \<Longrightarrow> e = IndexError"
  by (induction movies results rule: results_data.induct)
    (auto simp: genres_of_def title_of_def item0_filter split: sum.splits option.splits)

lemma results_data_absent:
  "(movie_id, distance) \<in> set results \<Longrightarrow> movie_id \<notin> movieId ` set movies \<Longrightarrow>
   results_data movies results = Inl IndexError"
proof (induction movies results rule: results_data.induct)
  case (1 movies)
  then show ?case by simp
next
  case (2 movies m d rest)
  show ?case
  proof (cases "results_data movies ((m, d) # rest)")
    case (Inl e)
    then show ?thesis using results_data_error by blast
  next
    case (Inr data)
    then obtain g t data' where g: "genres_of movies m = Inr g" and t: "title_of movies m = Inr t"
      and r: "results_data movies rest = Inr data'"
      by (auto split: sum.splits)
    from g have "m \<noteq> movie_id"
      using "2.prems"(2) by (auto simp: genres_of_def item0_filter find_absent)
    then have "(movie_id, distance) \<in> set rest"
      using "2.prems"(1) by auto
    from "2.IH" [OF g t this "2.prems"(2)] r show ?thesis by simp
  qed
qed

lemma results_data_present:
  "\<forall>(movie_id, distance) \<in> set results. movie_id \<in> movieId ` set movies \<Longrightarrow>
   \<exists>data. results_data movies results = Inr data \<and> length data = length results \<and>
     (\<forall>n < length results. \<exists>r. find (\<lambda>r. movieId r = fst (results ! n)) movies = Some r \<and>
        data ! n = [Text (genres r), Text (title r), Number (snd (results ! n))])"
proof (induction movies results rule: results_data.induct)
  case (1 movies)
  then show ?case by simp
next
  case (2 movies m d rest)
  from "2.prems" obtain r where r: "find (\<lambda>r. movieId r = m) movies = Some r"
    using find_present [of m movies] by auto
  then have g: "genres_of movies m = Inr (genres r)" and t: "title_of movies m = Inr (title r)"
    by (simp_all add: genres_of_def title_of_def item0_filter)
  from "2.prems" have "\<forall>(movie_id, distance) \<in> set rest. movie_id \<in> movieId ` set movies"
    by simp
  from "2.IH" [OF g t this] obtain data where data: "results_data movies rest = Inr data"
    "length data = length rest"
    "\<forall>n < length rest. \<exists>r. find (\<lambda>r. movieId r = fst (rest ! n)) movies = Some r \<and>
        data ! n = [Text (genres r), Text (title r), Number (snd (rest ! n))]"
    by blast
  let ?row = "[Text (genres r), Text (title r), Number d]"
  have "\<exists>r. find (\<lambda>r. movieId r = fst (((m, d) # rest) ! n)) movies = Some r \<and>
        (?row # data) ! n = [Text (genres r), Text (title r), Number (snd (((m, d) # rest) ! n))]"
    if "n < length ((m, d) # rest)" for n
    using that r data(3) by (cases n) auto
  then show ?case
    using g t data(1,2) by simp
qed

text \<open>
  C10: \<open>display_movie\<close> raises \<open>IndexError\<close> for a \<open>movie_id\<close> that is not in the
  \<open>movieId\<close> column; \<open>display_results_df\<close> raises \<open>IndexError\<close> when some pair has
  such a \<open>movie_id\<close>, whatever comes after that pair; and when every \<open>movie_id\<close> is in
  the table it displays one frame with the columns Genre, Title, Distance and one row
  per pair, in the order of the pairs: genres and title of the first table row with
  that id, and the pair's distance.
\<close>

theorem display_absent_or_rows:
  "(movie_id \<notin> movieId ` set movies \<longrightarrow> display_movie movies out movie_id = Inl IndexError) \<and>
   ((\<exists>(m, distance) \<in> set results. m \<notin> movieId ` set movies) \<longrightarrow>
      display_results_df movies out results = Inl IndexError) \<and>
   ((\<forall>(m, distance) \<in> set results. m \<in> movieId ` set movies) \<longrightarrow>
      (\<exists>data. display_results_df movies out results =
           Inr (out @ [\<lparr>columns = [''Genre'', ''Title'', ''Distance''], rows = data\<rparr>]) \<and>
         length data = length results \<and>
         (\<forall>n < length results. \<exists>r. find (\<lambda>r. movieId r = fst (results ! n)) movies = Some r \<and>
            data ! n = [Text (genres r), Text (title r), Number (snd (results ! n))])))"
proof (intro conjI impI)
  assume "movie_id \<notin> movieId ` set movies"
  then show "display_movie movies out movie_id = Inl IndexError"
    by (simp add: display_movie_def genres_of_def item0_filter find_absent)
next
  assume "\<exists>(m, distance) \<in> set results. m \<notin> movieId ` set movies"
  then have "results_data movies results = Inl IndexError"
    using results_data_absent [of _ _ results movies] by auto
  then show "display_results_df movies out results = Inl IndexError"
    by (simp add: display_results_df_def)
next
  assume "\<forall>(m, distance) \<in> set results. m \<in> movieId ` set movies"
  from results_data_present [OF this] obtain data where "results_data movies results = Inr data"
    "length data = length results"
    "\<forall>n < length results. \<exists>r. find (\<lambda>r. movieId r = fst (results ! n)) movies = Some r \<and>
        data ! n = [Text (genres r), Text (title r), Number (snd (results ! n))]"
    by blast
  then show "\<exists>data. display_results_df movies out results =
           Inr (out @ [\<lparr>columns = [''Genre'', ''Title'', ''Distance''], rows = data\<rparr>]) \<and>
         length data = length results \<and>
         (\<forall>n < length results. \<exists>r. find (\<lambda>r. movieId r = fst (results ! n)) movies = Some r \<and>
            data ! n = [Text (genres r), Text (title r), Number (snd (results ! n))])"
    by (simp add: display_results_df_def)
qed

text \<open>The id 7 is not in the small table; the ids 1 and 260 are.\<close>

theorem display_absent_or_rows_witness:
  "display_movie two_movies ([] :: int data_frame list) 7 = Inl IndexError \<and>
   display_results_df two_movies [] [(1, 3 :: int), (7, 2)] = Inl IndexError \<and>
   display_results_df two_movies [] [(1, 3 :: int), (260, 2)] =
     Inr [\<lparr>columns = [''Genre'', ''Title'', ''Distance''],
           rows = [[Text ''Children'', Text ''Toy Story'', Number 3],
                   [Text ''Action|Sci-Fi'', Text ''Star Wars'', Number 2]]\<rparr>]"
proof -
  have a: "7 \<notin> movieId ` set two_movies"
    by (simp add: two_movies_def)
  have b: "\<exists>(m, distance) \<in> set [(1, 3 :: int), (7, 2)]. m \<notin> movieId ` set two_movies"
    by (simp add: two_movies_def)
  have c: "\<forall>(m, distance) \<in> set [(1, 3 :: int), (260, 2)]. m \<in> movieId ` set two_movies"
    by (simp add: two_movies_def)
  have r1: "display_movie two_movies ([] :: int data_frame list) 7 = Inl IndexError"
    using display_absent_or_rows [of 7 two_movies "[]" "[]"] a by blast
  have r2: "display_results_df two_movies [] [(1, 3 :: int), (7, 2)] = Inl IndexError"
    using display_absent_or_rows [of 7 two_movies "[]" "[(1, 3), (7, 2)]"] b by blast
  from display_absent_or_rows [of 7 two_movies "[]" "[(1, 3 :: int), (260, 2)]"] c
  obtain data where data: "display_results_df two_movies [] [(1, 3 :: int), (260, 2)] =
           Inr ([] @ [\<lparr>columns = [''Genre'', ''Title'', ''Distance''], rows = data\<rparr>])"
    by blast
  have "display_results_df two_movies [] [(1, 3 :: int), (260, 2)] =
     Inr [\<lparr>columns = [''Genre'', ''Title'', ''Distance''],
           rows = [[Text ''Children'', Text ''Toy Story'', Number 3],
                   [Text ''Action|Sci-Fi'', Text ''Star Wars'', Number 2]]\<rparr>]"
    by (simp add: display_results_df_def two_movies_def genres_of_def title_of_def item0_def)
  then show ?thesis
    using r1 r2 data by blast
qed




section \<open>The pipeline cells: proofs\<close>









text \<open>
  C3: the mapping path given to \<open>BuildRecords\<close> is \<open>path_mapping\<close>, and it is the path
  the \<open>Trainer\<close> cell gives to \<open>dpr.vocab.size\<close>; the predictions path of \<open>Predict\<close> is
  the predictions path of every \<open>Evaluate\<close> job; the embeddings and biases paths of
  every \<open>Evaluate\<close> job are \<open>path_variables + "/embeddings"\<close> and
  \<open>path_variables + "/biases"\<close>; the one \<open>SaveVariables\<close> exporter of the trainer writes
  the variables "biases" and "embeddings" into \<open>path_variables\<close>; and each of these
  paths extends \<open>path_root = "average"\<close>.
\<close>

theorem artifacts_handed_over:
  "br_path_mapping (build cwd) = path_mapping \<and>
   train env w =
     (case vocab_size env (br_path_mapping (build cwd)) w of
        Inl e \<Rightarrow> Inl e
      | Inr n \<Rightarrow> Inr (train_with n n)) \<and>
   pr_path_predictions predict = path_predictions \<and>
   (\<forall>e \<in> set evaluate.
      ev_path_predictions e = pr_path_predictions predict \<and>
      ev_path_embeddings e = path_variables @ ''/embeddings'' \<and>
      ev_path_biases e = path_variables @ ''/biases'') \<and>
   SaveVariables path_variables [''biases'', ''embeddings''] \<in> set (tr_exporters (train_with n1 n2)) \<and>
   (\<forall>p names. SaveVariables p names \<in> set (tr_exporters (train_with n1 n2)) \<longrightarrow>
      p = path_variables \<and> names = [''biases'', ''embeddings'']) \<and>
   path_root = ''average'' \<and>
   (\<forall>p \<in> set [path_mapping, path_predictions, path_variables,
        path_variables @ ''/embeddings'', path_variables @ ''/biases'']. prefix path_root p) \<and>
   path_mapping = ''average/data/mapping.txt'' \<and>
   path_predictions = ''average/predictions.parquet.snappy'' \<and>
   path_variables @ ''/embeddings'' = ''average/variables/embeddings'' \<and>
   path_variables @ ''/biases'' = ''average/variables/biases''"
proof (intro conjI)
  show "train env w =
     (case vocab_size env (br_path_mapping (build cwd)) w of
        Inl e \<Rightarrow> Inl e
      | Inr n \<Rightarrow> Inr (train_with n n))"
    by (simp add: train_def build_def split: sum.splits)
  show "\<forall>p \<in> set [path_mapping, path_predictions, path_variables,
        path_variables @ ''/embeddings'', path_variables @ ''/biases'']. prefix path_root p"
    by (simp add: path_mapping_def path_data_def path_predictions_def path_variables_def)
qed (simp_all add: build_def predict_def evaluate_def train_with_def path_mapping_def path_data_def
    path_predictions_def path_variables_def path_root_def)

text \<open>The second evaluation job, and a world that holds a mapping file of three lines.\<close>

theorem artifacts_handed_over_witness:
  "evaluate ! 1 \<in> set evaluate \<and>
   train files_deepr [(path_mapping, ''7\<newline>5\<newline>9'')] = Inr (train_with 3 3) \<and>
   ev_path_predictions (evaluate ! 1) = pr_path_predictions predict \<and>
   ev_path_embeddings (evaluate ! 1) = ''average/variables/embeddings'' \<and>
   prefix path_root path_mapping"
proof -
  let ?w = "[(path_mapping, ''7\<newline>5\<newline>9'')]"
  have v: "vocab_size files_deepr (br_path_mapping (build ''/home'')) ?w = Inr 3"
    by (simp add: files_deepr_def build_def)
  have one: "evaluate ! 1 \<in> set evaluate"
    by (simp add: evaluate_def)
  have two: "path_mapping \<in> set [path_mapping, path_predictions, path_variables,
        path_variables @ ''/embeddings'', path_variables @ ''/biases'']"
    by simp
  note h = artifacts_handed_over [of "''/home''" files_deepr ?w 0 0]
  from h have "train files_deepr ?w =
      (case vocab_size files_deepr (br_path_mapping (build ''/home'')) ?w of
         Inl e \<Rightarrow> Inl e
       | Inr n \<Rightarrow> Inr (train_with n n))"
    by blast
  then have t: "train files_deepr ?w = Inr (train_with 3 3)"
    by (simp only: v sum.case)
  from h one have p: "ev_path_predictions (evaluate ! 1) = pr_path_predictions predict"
    by blast
  from h one have "ev_path_embeddings (evaluate ! 1) = path_variables @ ''/embeddings''"
    by blast
  moreover from h have "path_variables @ ''/embeddings'' = ''average/variables/embeddings''"
    by blast
  ultimately have e: "ev_path_embeddings (evaluate ! 1) = ''average/variables/embeddings''"
    by (rule trans)
  from h two have r: "prefix path_root path_mapping"
    by blast
  show ?thesis
    using one t p e r by blast
qed






end
